theory Spec2Isabelle
  imports Complex_Main
begin

section \<open>Python values and exceptions\<close>

text \<open>
  The service is a Python module (\<^verbatim>\<open>data_service.py\<close>). Every function of it that can raise
  is modelled with a result of type \<open>exn + 'a\<close>: \<open>Inl\<close> is a raised exception, \<open>Inr\<close> a
  returned value. All handlers of the source are \<^verbatim>\<open>except Exception\<close>, and \<open>exn\<close> stands
  for the instances of \<^verbatim>\<open>Exception\<close>; the library calls (\<^verbatim>\<open>requests\<close>, \<^verbatim>\<open>bs4\<close>,
  \<^verbatim>\<open>keybert\<close>) raise \<open>LibraryError\<close> with the name of their exception.
\<close>

datatype exn = AttributeError | TypeError | KeyError | HTTPError int | LibraryError string

text \<open>
  What \<^verbatim>\<open>response.json()\<close> returns: a dict is the list of its items (keys distinct, so the
  first match of \<open>map_of\<close> is the entry), a number carries its value.
\<close>

datatype json =
    JNull
  | JBool bool
  | JNum real
  | JStr string
  | JArr "json list"
  | JObj "(string \<times> json) list"

text \<open>Python truth value (\<^verbatim>\<open>if x\<close>, \<^verbatim>\<open>not x\<close>).\<close>

fun truthy :: "json \<Rightarrow> bool" where
  "truthy JNull = False"
| "truthy (JBool b) = b"
| "truthy (JNum x) = (x \<noteq> 0)"
| "truthy (JStr s) = (s \<noteq> [])"
| "truthy (JArr xs) = (xs \<noteq> [])"
| "truthy (JObj kvs) = (kvs \<noteq> [])"

text \<open>\<^verbatim>\<open>x.get(key, default)\<close>: only a dict has the method.\<close>

fun py_get :: "json \<Rightarrow> string \<Rightarrow> json \<Rightarrow> exn + json" where
  "py_get (JObj kvs) k d = Inr (case map_of kvs k of None \<Rightarrow> d | Some v \<Rightarrow> v)"
| "py_get _ k d = Inl AttributeError"

text \<open>\<^verbatim>\<open>len(x)\<close>: strings, lists and dicts are sized, the other values raise TypeError.\<close>

fun py_len :: "json \<Rightarrow> exn + nat" where
  "py_len (JStr s) = Inr (length s)"
| "py_len (JArr xs) = Inr (length xs)"
| "py_len (JObj kvs) = Inr (length kvs)"
| "py_len _ = Inl TypeError"

text \<open>
  The elements a \<^verbatim>\<open>for\<close> loop visits: the items of a list, the characters of a string,
  the keys of a dict; the other values are not iterable.
\<close>

fun py_iter :: "json \<Rightarrow> exn + json list" where
  "py_iter (JArr xs) = Inr xs"
| "py_iter (JStr s) = Inr (map (\<lambda>c. JStr [c]) s)"
| "py_iter (JObj kvs) = Inr (map (\<lambda>kv. JStr (fst kv)) kvs)"
| "py_iter _ = Inl TypeError"

subsection \<open>Strings\<close>

text \<open>
  A \<open>char\<close> is read as the code point of the same number (0 to 255). On these code points
  \<^verbatim>\<open>str.isspace\<close> holds of 9 to 13, 28 to 32, 133 and 160, and \<^verbatim>\<open>str.lower\<close> adds 32 to
  65..90, 192..214 and 216..222 and leaves the rest.
\<close>

definition py_isspace :: "char \<Rightarrow> bool" where
  "py_isspace c =
     (let n = (of_char c :: nat)
      in (9 \<le> n \<and> n \<le> 13) \<or> (28 \<le> n \<and> n \<le> 32) \<or> n = 133 \<or> n = 160)"

definition py_strip :: "string \<Rightarrow> string" where
  "py_strip s = rev (dropWhile py_isspace (rev (dropWhile py_isspace s)))"

definition lower_char :: "char \<Rightarrow> char" where
  "lower_char c =
     (let n = (of_char c :: nat)
      in if (65 \<le> n \<and> n \<le> 90) \<or> (192 \<le> n \<and> n \<le> 214) \<or> (216 \<le> n \<and> n \<le> 222)
         then char_of (n + 32) else c)"

definition py_lower :: "string \<Rightarrow> string" where
  "py_lower s = map lower_char s"

text \<open>\<^verbatim>\<open>sep.join(xs)\<close>.\<close>

fun py_join :: "string \<Rightarrow> string list \<Rightarrow> string" where
  "py_join sep [] = []"
| "py_join sep [x] = x"
| "py_join sep (x # y # ys) = x @ sep @ py_join sep (y # ys)"

text \<open>\<^verbatim>\<open>str(n)\<close> of an integer, as an f-string formats it.\<close>

fun digits :: "nat \<Rightarrow> string" where
  "digits n =
     (if n < 10 then [char_of (48 + n)]
      else digits (n div 10) @ [char_of (48 + n mod 10)])"

definition py_str_int :: "int \<Rightarrow> string" where
  "py_str_int i = (if i < 0 then ''-'' @ digits (nat (- i)) else digits (nat i))"

section \<open>The fallback table\<close>

text \<open>\<^verbatim>\<open>MOCK_JOB_DESCRIPTIONS\<close> (lines 54 to 140), one definition for each entry.\<close>

definition default_descriptions :: "string list" where
  "default_descriptions =
    [''We are looking for a skilled developer with experience in '' @
      ''Python, JavaScript, React, Node.js, SQL, Docker, Git, REST APIs, '' @
      ''Agile methodologies, and CI/CD pipelines. Strong problem-solving '' @
      ''skills and teamwork required. Experience with cloud platforms '' @
      ''like AWS or Azure is a plus.'',
     ''The ideal candidate should have proficiency in data structures, '' @
      ''algorithms, system design, microservices architecture, and '' @
      ''database management. Knowledge of TypeScript, GraphQL, Redis, '' @
      ''and Kubernetes is highly desirable.'']"

definition flutter_developer_descriptions :: "string list" where
  "flutter_developer_descriptions =
    [''We need a Flutter Developer proficient in Dart, Flutter SDK, '' @
      ''Firebase, Bloc/Cubit state management, REST API integration, '' @
      ''Git version control, and responsive UI design. Experience with '' @
      ''provider pattern, clean architecture, and CI/CD for mobile apps.'',
     ''Looking for a mobile developer experienced in Flutter, Dart, '' @
      ''Firebase Authentication, Cloud Firestore, Push Notifications, '' @
      ''GetX or Riverpod state management, unit testing, integration '' @
      ''testing, and publishing to Google Play & App Store.'',
     ''Flutter engineer needed with skills in Dart, Material Design, '' @
      ''Cupertino widgets, platform channels, Hive/SQLite local storage, '' @
      ''Dio HTTP client, WebSocket, Git, and Agile development.'']"

definition data_scientist_descriptions :: "string list" where
  "data_scientist_descriptions =
    [''Seeking a Data Scientist with expertise in Python, Pandas, '' @
      ''NumPy, Scikit-learn, TensorFlow, SQL, data visualization '' @
      ''with Matplotlib and Seaborn, statistical analysis, A/B testing, '' @
      ''and machine learning model deployment.'',
     ''Data Scientist role requiring knowledge of deep learning, NLP, '' @
      ''PyTorch, feature engineering, data pipelines, Apache Spark, '' @
      ''Jupyter notebooks, Git, and cloud ML services (AWS SageMaker).'']"

definition backend_developer_descriptions :: "string list" where
  "backend_developer_descriptions =
    [''Backend Developer needed with experience in Node.js, Express, '' @
      ''Python, Django, PostgreSQL, MongoDB, Redis, Docker, Kubernetes, '' @
      ''REST API design, GraphQL, authentication (JWT/OAuth), and '' @
      ''microservices architecture.'',
     ''We are hiring a backend engineer skilled in Java, Spring Boot, '' @
      ''SQL databases, message queues (RabbitMQ/Kafka), CI/CD, '' @
      ''unit testing, system design, and cloud infrastructure (AWS/GCP).'']"

definition frontend_developer_descriptions :: "string list" where
  "frontend_developer_descriptions =
    [''Frontend Developer with expertise in React.js, TypeScript, '' @
      ''HTML5, CSS3, Tailwind CSS, Next.js, Redux, Webpack, responsive '' @
      ''design, cross-browser compatibility, and accessibility (WCAG).'',
     ''Looking for a front-end engineer experienced in Vue.js or React, '' @
      ''JavaScript ES6+, SASS/LESS, component libraries, state management, '' @
      ''RESTful API consumption, Git, and performance optimization.'']"

definition devops_engineer_descriptions :: "string list" where
  "devops_engineer_descriptions =
    [''DevOps Engineer with experience in Docker, Kubernetes, Terraform, '' @
      ''CI/CD (Jenkins/GitHub Actions), AWS/GCP/Azure, Linux, Bash '' @
      ''scripting, monitoring (Prometheus/Grafana), and Infrastructure '' @
      ''as Code.'',
     ''Seeking a site reliability engineer skilled in containerization, '' @
      ''orchestration, networking, security best practices, log '' @
      ''aggregation (ELK stack), and incident response management.'']"

definition MOCK_JOB_DESCRIPTIONS :: "(string \<times> string list) list" where
  "MOCK_JOB_DESCRIPTIONS =
    [(''default'', default_descriptions),
     (''flutter developer'', flutter_developer_descriptions),
     (''data scientist'', data_scientist_descriptions),
     (''backend developer'', backend_developer_descriptions),
     (''frontend developer'', frontend_developer_descriptions),
     (''devops engineer'', devops_engineer_descriptions)]"

section \<open>The environment of the service\<close>

text \<open>
  What \<^verbatim>\<open>requests.get(url, timeout=10)\<close> returns, as far as the service reads it: the
  status code, and what \<^verbatim>\<open>response.json()\<close> does (it raises when the body is not JSON).
\<close>

record response =
  status_code :: int
  json_result :: "exn + json"

text \<open>
  \<^verbatim>\<open>response.raise_for_status()\<close>; the source's comment: raises HTTPError for 4xx/5xx
  responses.
\<close>

definition raise_for_status :: "response \<Rightarrow> exn + unit" where
  "raise_for_status r =
     (if 400 \<le> status_code r \<and> status_code r < 600 then Inl (HTTPError (status_code r))
      else Inr ())"

text \<open>The keyword arguments of \<^verbatim>\<open>KeyBERT.extract_keywords\<close> that the service passes.\<close>

record kw_args =
  kw_docs :: string
  kw_keyphrase_ngram_range :: "nat \<times> nat"
  kw_stop_words :: string
  kw_top_n :: int
  kw_use_mmr :: bool
  kw_diversity :: real

text \<open>
  The libraries and the process environment are parameters of the model. \<open>'m\<close> is the
  state of a loaded KeyBERT object: the one object is shared by all requests, so a call
  on it returns its result together with the object's next state.
  \<^item> \<open>environ\<close>: \<^verbatim>\<open>os.environ.get\<close>;
  \<^item> \<open>requests_get url timeout\<close>: \<^verbatim>\<open>requests.get(url, timeout=timeout)\<close>;
  \<^item> \<open>bs_get_text raw\<close>:
    \<^verbatim>\<open>BeautifulSoup(raw, "html.parser").get_text(separator=" ", strip=True)\<close>;
  \<^item> \<open>KeyBERT name\<close>: \<^verbatim>\<open>from keybert import KeyBERT; KeyBERT(model=name)\<close>;
  \<^item> \<open>kw_extract_keywords m args\<close>: \<^verbatim>\<open>m.extract_keywords(...)\<close>, a list of
    (keyword, score) pairs.
\<close>

record 'm world =
  environ :: "string \<Rightarrow> string option"
  requests_get :: "string \<Rightarrow> int \<Rightarrow> exn + response"
  bs_get_text :: "json \<Rightarrow> exn + string"
  KeyBERT :: "string \<Rightarrow> exn + 'm"
  kw_extract_keywords :: "'m \<Rightarrow> kw_args \<Rightarrow> (exn + (string \<times> real) list) \<times> 'm"

section \<open>SkillExtractorService\<close>

record 'm service =
  kw_model :: "'m option"

text \<open>\<^verbatim>\<open>__init__\<close> (lines 161 to 175): a failed load leaves the handle \<^verbatim>\<open>None\<close>.\<close>

definition SkillExtractorService_init :: "'m world \<Rightarrow> 'm service" where
  "SkillExtractorService_init W =
     (case KeyBERT W ''all-MiniLM-L6-v2'' of
        Inl e \<Rightarrow> \<lparr>kw_model = None\<rparr>
      | Inr m \<Rightarrow> \<lparr>kw_model = Some m\<rparr>)"

text \<open>
  \<^verbatim>\<open>_get_mock_descriptions\<close> (lines 317 to 338). The default argument
  \<^verbatim>\<open>MOCK_JOB_DESCRIPTIONS["default"]\<close> is evaluated before the lookup and raises
  KeyError when the key is missing.
\<close>

definition get_mock_descriptions :: "string \<Rightarrow> exn + string list" where
  "get_mock_descriptions job_title =
     (let key = py_lower (py_strip job_title)
      in case map_of MOCK_JOB_DESCRIPTIONS ''default'' of
           None \<Rightarrow> Inl KeyError
         | Some dflt \<Rightarrow>
             Inr (case map_of MOCK_JOB_DESCRIPTIONS key of
                    None \<Rightarrow> dflt
                  | Some descriptions \<Rightarrow> descriptions))"

text \<open>The URL of \<^verbatim>\<open>_fetch_from_adzuna\<close> (lines 280 to 287).\<close>

definition adzuna_url :: "string \<Rightarrow> string \<Rightarrow> string \<Rightarrow> int \<Rightarrow> string" where
  "adzuna_url job_title app_id app_key results_per_page =
     ''https://api.adzuna.com/v1/api/jobs/eg/search/1'' @
     ''?app_id='' @ app_id @
     ''&app_key='' @ app_key @
     ''&results_per_page='' @ py_str_int results_per_page @
     ''&what='' @ job_title @
     ''&content-type=application/json''"

text \<open>
  Lines 292 to 296 of \<^verbatim>\<open>_fetch_from_adzuna\<close>: the request, \<^verbatim>\<open>raise_for_status\<close>,
  \<^verbatim>\<open>response.json()\<close> and \<^verbatim>\<open>data.get("results", [])\<close>. A failing import of
  line 276 or 277 raises under the same handler, like a raising \<open>requests_get\<close>.
\<close>

definition adzuna_results :: "'m world \<Rightarrow> string \<Rightarrow> string \<Rightarrow> string \<Rightarrow> int \<Rightarrow> exn + json" where
  "adzuna_results W job_title app_id app_key results_per_page =
     (case requests_get W (adzuna_url job_title app_id app_key results_per_page) 10 of
        Inl e \<Rightarrow> Inl e
      | Inr response \<Rightarrow>
          (case raise_for_status response of
             Inl e \<Rightarrow> Inl e
           | Inr _ \<Rightarrow>
               (case json_result response of
                  Inl e \<Rightarrow> Inl e
                | Inr data \<Rightarrow> py_get data ''results'' (JArr []))))"

text \<open>
  The loop of lines 305 to 313; \<open>descriptions\<close> is the list built so far. An exception
  of \<^verbatim>\<open>job.get\<close> or of BeautifulSoup leaves the loop.
\<close>

fun clean_descriptions :: "'m world \<Rightarrow> json list \<Rightarrow> string list \<Rightarrow> exn + string list" where
  "clean_descriptions W [] descriptions = Inr descriptions"
| "clean_descriptions W (job # jobs) descriptions =
     (case py_get job ''description'' (JStr []) of
        Inl e \<Rightarrow> Inl e
      | Inr raw_description \<Rightarrow>
          if truthy raw_description then
            (case bs_get_text W raw_description of
               Inl e \<Rightarrow> Inl e
             | Inr clean_text \<Rightarrow> clean_descriptions W jobs (descriptions @ [clean_text]))
          else clean_descriptions W jobs descriptions)"

text \<open>
  \<^verbatim>\<open>_fetch_from_adzuna\<close> (lines 255 to 315). The log line of line 302 evaluates
  \<^verbatim>\<open>len(results)\<close>, which raises on a value without length.
\<close>

definition fetch_from_adzuna ::
    "'m world \<Rightarrow> string \<Rightarrow> string \<Rightarrow> string \<Rightarrow> int \<Rightarrow> exn + string list" where
  "fetch_from_adzuna W job_title app_id app_key results_per_page =
     (case adzuna_results W job_title app_id app_key results_per_page of
        Inl e \<Rightarrow> Inl e
      | Inr results \<Rightarrow>
          if \<not> truthy results then get_mock_descriptions job_title
          else (case py_len results of
                  Inl e \<Rightarrow> Inl e
                | Inr n \<Rightarrow>
                    (case py_iter results of
                       Inl e \<Rightarrow> Inl e
                     | Inr jobs \<Rightarrow> clean_descriptions W jobs [])))"

text \<open>
  \<^verbatim>\<open>_fetch_job_descriptions\<close> (lines 219 to 253); \<^verbatim>\<open>_fetch_from_adzuna\<close> is called with
  its default \<^verbatim>\<open>results_per_page=10\<close>. A variable of the environment is a string when
  it is set, and \<^verbatim>\<open>not\<close> holds of an unset and of an empty one.
\<close>

definition fetch_job_descriptions :: "'m world \<Rightarrow> string \<Rightarrow> exn + string list" where
  "fetch_job_descriptions W job_title =
     (case (environ W ''ADZUNA_APP_ID'', environ W ''ADZUNA_APP_KEY'') of
        (Some adzuna_app_id, Some adzuna_app_key) \<Rightarrow>
          if adzuna_app_id = [] \<or> adzuna_app_key = [] then get_mock_descriptions job_title
          else (case fetch_from_adzuna W job_title adzuna_app_id adzuna_app_key 10 of
                  Inl e \<Rightarrow> get_mock_descriptions job_title
                | Inr descriptions \<Rightarrow> Inr descriptions)
      | _ \<Rightarrow> get_mock_descriptions job_title)"

text \<open>The arguments of the call of lines 375 to 382.\<close>

definition keyword_args :: "string \<Rightarrow> int \<Rightarrow> kw_args" where
  "keyword_args text top_n =
     \<lparr>kw_docs = text,
      kw_keyphrase_ngram_range = (1, 3),
      kw_stop_words = ''english'',
      kw_top_n = top_n,
      kw_use_mmr = True,
      kw_diversity = 1 / 2\<rparr>"

text \<open>
  \<^verbatim>\<open>_extract_keywords\<close> (lines 344 to 391): no handle gives the empty list, an exception
  of the library gives the empty list, and otherwise the scores are dropped.
\<close>

definition extract_keywords ::
    "'m world \<Rightarrow> 'm service \<Rightarrow> string \<Rightarrow> int \<Rightarrow> (exn + string list) \<times> 'm service" where
  "extract_keywords W self text top_n =
     (case kw_model self of
        None \<Rightarrow> (Inr [], self)
      | Some m \<Rightarrow>
          (case kw_extract_keywords W m (keyword_args text top_n) of
             (Inl e, m') \<Rightarrow> (Inr [], self\<lparr>kw_model := Some m'\<rparr>)
           | (Inr keywords_with_scores, m') \<Rightarrow>
               (Inr (map fst keywords_with_scores), self\<lparr>kw_model := Some m'\<rparr>)))"

text \<open>\<^verbatim>\<open>extract_skills\<close> (lines 181 to 213).\<close>

definition extract_skills ::
    "'m world \<Rightarrow> 'm service \<Rightarrow> string \<Rightarrow> int \<Rightarrow> (exn + string list) \<times> 'm service" where
  "extract_skills W self job_title top_n =
     (case fetch_job_descriptions W job_title of
        Inl e \<Rightarrow> (Inl e, self)
      | Inr descriptions \<Rightarrow>
          if descriptions = [] then (Inr [], self)
          else (let aggregated_text = py_join '' '' descriptions
                in extract_keywords W self aggregated_text top_n))"


section \<open>The keyword extractor behind the handle\<close>

text \<open>
  The repository holds only the call of \<^verbatim>\<open>self._kw_model.extract_keywords\<close>; the code
  that generates, ranks and selects the keyphrases is not in its sources. The
  definitions of this section model it from sections 4.2 to 4.5 of the spec. They are
  used where a statement depends on what the handle returns; the other statements hold
  for every handle.
\<close>











text \<open>
  Modelled from the spec: picking the candidate that maximizes a score, with ties
  broken by first-occurrence order (4.4, step 3b); missing from the sources. \<open>better a b\<close>
  says that \<open>a\<close> is strictly better than \<open>b\<close>; the earlier of two equally good candidates
  stays.
\<close>

fun best :: "('c \<Rightarrow> 'c \<Rightarrow> bool) \<Rightarrow> 'c \<Rightarrow> 'c list \<Rightarrow> 'c" where
  "best better b [] = b"
| "best better b (c # cs) = best better (if better c b then c else b) cs"

text \<open>
  Modelled from the spec: \<^verbatim>\<open>max_over(s in Selected)\<close> of step 3a (4.4), missing from the
  sources. Selected is never empty where the score is taken.
\<close>

fun max_list :: "real list \<Rightarrow> real" where
  "max_list [] = 0"
| "max_list (x # xs) = fold max xs x"

text \<open>
  Modelled from the spec: the score of step 3a of the Diversity Selector (4.4), missing
  from the sources:
  \<^verbatim>\<open>mmr(c) = diversity * relevance(c) - (1 - diversity) * max_over(s in Selected) similarity(c, s)\<close>.
\<close>

definition mmr ::
    "(string \<Rightarrow> real) \<Rightarrow> (string \<Rightarrow> string \<Rightarrow> real) \<Rightarrow> real \<Rightarrow> string list \<Rightarrow> string \<Rightarrow> real" where
  "mmr relevance similarity diversity selected c =
     diversity * relevance c - (1 - diversity) * max_list (map (similarity c) selected)"

text \<open>
  Modelled from the spec: step 3 of the Diversity Selector (4.4), missing from the
  sources: while \<open>|Selected| < top_n\<close> and Remaining is not empty, the candidate that
  maximizes \<open>mmr\<close> (ties: the higher relevance, then the first occurrence) moves from
  Remaining to the end of Selected.
\<close>

function select_loop ::
    "(string \<Rightarrow> real) \<Rightarrow> (string \<Rightarrow> string \<Rightarrow> real) \<Rightarrow> real \<Rightarrow> int \<Rightarrow>
     string list \<Rightarrow> string list \<Rightarrow> string list" where
  "select_loop relevance similarity diversity top_n selected remaining =
     (if int (length selected) < top_n \<and> remaining \<noteq> [] then
        (let c = best (\<lambda>a b. mmr relevance similarity diversity selected a >
                               mmr relevance similarity diversity selected b \<or>
                             (mmr relevance similarity diversity selected a =
                                mmr relevance similarity diversity selected b \<and>
                              relevance a > relevance b))
                   (hd remaining) (tl remaining)
         in select_loop relevance similarity diversity top_n (selected @ [c])
              (remove1 c remaining))
      else selected)"
  by pat_completeness auto
termination
proof (relation "measure (\<lambda>(relevance, similarity, diversity, top_n, selected, remaining).
    length remaining)")
  show "wf (measure (\<lambda>(relevance :: string \<Rightarrow> real, similarity :: string \<Rightarrow> string \<Rightarrow> real,
      diversity :: real, top_n :: int, selected :: string list, remaining :: string list).
    length remaining))"
    by simp
next
  fix relevance :: "string \<Rightarrow> real" and similarity :: "string \<Rightarrow> string \<Rightarrow> real"
    and diversity :: real and top_n :: int and selected remaining :: "string list" and c
  assume run: "int (length selected) < top_n \<and> remaining \<noteq> []"
    and c: "c = best (\<lambda>a b. mmr relevance similarity diversity selected a >
                               mmr relevance similarity diversity selected b \<or>
                             (mmr relevance similarity diversity selected a =
                                mmr relevance similarity diversity selected b \<and>
                              relevance a > relevance b))
                   (hd remaining) (tl remaining)"
  have mem: "best better b cs \<in> set (b # cs)" for better :: "string \<Rightarrow> string \<Rightarrow> bool" and b cs
    by (induction cs arbitrary: b) auto
  from run have "hd remaining # tl remaining = remaining" by simp
  with mem[of _ "hd remaining" "tl remaining"] c have "c \<in> set remaining" by simp
  then have "length (remove1 c remaining) < length remaining"
    by (simp add: length_remove1) (cases remaining, auto)
  then show "((relevance, similarity, diversity, top_n, selected @ [c], remove1 c remaining),
       (relevance, similarity, diversity, top_n, selected, remaining))
      \<in> measure (\<lambda>(relevance, similarity, diversity, top_n, selected, remaining).
          length remaining)"
    by simp
qed

declare select_loop.simps [simp del]

text \<open>
  Modelled from the spec: the Diversity Selector \<open>select\<close> (4.4), missing from the
  sources, for a list of candidates that is not empty. Step 2 picks the candidate of the
  highest relevance as the first entry of Selected, before \<open>top_n\<close> is looked at; step
  3 is the loop; step 4 returns Selected in the order of selection.
\<close>

definition select ::
    "(string \<Rightarrow> real) \<Rightarrow> (string \<Rightarrow> string \<Rightarrow> real) \<Rightarrow> real \<Rightarrow> int \<Rightarrow> string list \<Rightarrow> string list" where
  "select relevance similarity diversity top_n scored =
     (let first = best (\<lambda>a b. relevance a > relevance b) (hd scored) (tl scored)
      in select_loop relevance similarity diversity top_n [first] (remove1 first scored))"




section \<open>Sample environments\<close>

text \<open>
  Concrete environments on which the theorems below are evaluated. The state of the
  sample KeyBERT object counts the calls made on it.
\<close>

definition plain_get_text :: "json \<Rightarrow> exn + string" where
  "plain_get_text raw = (case raw of JStr s \<Rightarrow> Inr s | _ \<Rightarrow> Inl TypeError)"

definition ranked_phrases :: "(string \<times> real) list" where
  "ranked_phrases = [(''flutter'', 3 / 5), (''dart'', 1 / 2), (''firebase'', 2 / 5)]"

text \<open>A handle that returns the first \<open>top_n\<close> of its ranked phrases.\<close>

definition capped_model :: "nat \<Rightarrow> kw_args \<Rightarrow> (exn + (string \<times> real) list) \<times> nat" where
  "capped_model m a = (Inr (take (nat (kw_top_n a)) ranked_phrases), Suc m)"

definition offline_world :: "nat world" where
  "offline_world =
     \<lparr>environ = (\<lambda>name. None),
      requests_get = (\<lambda>url timeout. Inl (LibraryError ''ConnectionError'')),
      bs_get_text = plain_get_text,
      KeyBERT = (\<lambda>name. Inr 0),
      kw_extract_keywords = capped_model\<rparr>"

definition no_model_world :: "nat world" where
  "no_model_world = offline_world\<lparr>KeyBERT := (\<lambda>name. Inl (LibraryError ''ImportError''))\<rparr>"

definition adzuna_environ :: "string \<Rightarrow> string option" where
  "adzuna_environ name =
     (if name = ''ADZUNA_APP_ID'' then Some ''id''
      else if name = ''ADZUNA_APP_KEY'' then Some ''key'' else None)"

definition job_with :: "string \<Rightarrow> json" where
  "job_with d = JObj [(''title'', JStr ''Flutter Developer''), (''description'', JStr d)]"

definition respond :: "int \<Rightarrow> json \<Rightarrow> string \<Rightarrow> int \<Rightarrow> exn + response" where
  "respond code results url timeout =
     Inr \<lparr>status_code = code, json_result = Inr (JObj [(''results'', results)])\<rparr>"

text \<open>Status 200, one job without a description.\<close>

definition no_description_world :: "nat world" where
  "no_description_world =
     offline_world
       \<lparr>environ := adzuna_environ,
        requests_get := respond 200 (JArr [JObj [(''title'', JStr ''Flutter Developer'')]])\<rparr>"

text \<open>Status 200, two jobs with a description and one with an empty one between them.\<close>

definition live_world :: "nat world" where
  "live_world =
     offline_world
       \<lparr>environ := adzuna_environ,
        requests_get := respond 200 (JArr [job_with ''Dart'', job_with [], job_with ''Bloc''])\<rparr>"

text \<open>Status 300 (neither 2xx nor 4xx/5xx) with a job in its body.\<close>

definition status_300_world :: "nat world" where
  "status_300_world =
     offline_world
       \<lparr>environ := adzuna_environ,
        requests_get := respond 300 (JArr [job_with ''Dart''])\<rparr>"

text \<open>Status 500.\<close>

definition status_500_world :: "nat world" where
  "status_500_world =
     offline_world
       \<lparr>environ := adzuna_environ,
        requests_get := respond 500 (JArr [job_with ''Dart''])\<rparr>"

text \<open>Status 200 and eleven jobs, one more than the \<^verbatim>\<open>results_per_page\<close> asked for.\<close>

definition eleven_jobs :: "json list" where
  "eleven_jobs =
     map job_with
       [''a'', ''b'', ''c'', ''d'', ''e'', ''f'', ''g'', ''h'', ''i'', ''j'', ''k'']"

definition eleven_world :: "nat world" where
  "eleven_world =
     offline_world\<lparr>environ := adzuna_environ, requests_get := respond 200 (JArr eleven_jobs)\<rparr>"







section \<open>Predicates of the statements\<close>

text \<open>
  The test of line 238: \<^verbatim>\<open>not adzuna_app_id or not adzuna_app_key\<close>.
\<close>

definition credentials_missing :: "'m world \<Rightarrow> bool" where
  "credentials_missing W =
     (case (environ W ''ADZUNA_APP_ID'', environ W ''ADZUNA_APP_KEY'') of
        (Some app_id, Some app_key) \<Rightarrow> app_id = [] \<or> app_key = []
      | _ \<Rightarrow> True)"

text \<open>
  The failures of the primary source: no credentials, an exception of the request
  (of \<^verbatim>\<open>requests.get\<close>, of \<^verbatim>\<open>response.json()\<close> or of \<^verbatim>\<open>data.get\<close>), a status
  4xx or 5xx, or a \<^verbatim>\<open>results\<close> value that \<^verbatim>\<open>not\<close> holds of (no results).
\<close>

definition primary_source_fails :: "'m world \<Rightarrow> string \<Rightarrow> bool" where
  "primary_source_fails W job_title =
     (case (environ W ''ADZUNA_APP_ID'', environ W ''ADZUNA_APP_KEY'') of
        (Some app_id, Some app_key) \<Rightarrow>
          app_id = [] \<or> app_key = [] \<or>
          (case requests_get W (adzuna_url job_title app_id app_key 10) 10 of
             Inl e \<Rightarrow> True
           | Inr response \<Rightarrow>
               (400 \<le> status_code response \<and> status_code response < 600) \<or>
               (case json_result response of
                  Inl e \<Rightarrow> True
                | Inr data \<Rightarrow>
                    (case py_get data ''results'' (JArr []) of
                       Inl e \<Rightarrow> True
                     | Inr results \<Rightarrow> \<not> truthy results)))
      | _ \<Rightarrow> True)"

text \<open>A handle whose every call raises.\<close>

definition raising_model :: "nat \<Rightarrow> kw_args \<Rightarrow> (exn + (string \<times> real) list) \<times> nat" where
  "raising_model m a = (Inl (LibraryError ''RuntimeError''), Suc m)"

section \<open>The fallback table and the primary path\<close>

lemma map_of_default: "map_of MOCK_JOB_DESCRIPTIONS ''default'' = Some default_descriptions"
  by (simp add: MOCK_JOB_DESCRIPTIONS_def)

lemma get_mock_descriptions_eq:
  "get_mock_descriptions t =
     Inr (case map_of MOCK_JOB_DESCRIPTIONS (py_lower (py_strip t)) of
            None \<Rightarrow> default_descriptions | Some ds \<Rightarrow> ds)"
  by (simp add: get_mock_descriptions_def map_of_default)

lemma mock_entries_nonempty: "map_of MOCK_JOB_DESCRIPTIONS k = Some ds \<Longrightarrow> ds \<noteq> []"
  by (auto simp: MOCK_JOB_DESCRIPTIONS_def default_descriptions_def
      flutter_developer_descriptions_def data_scientist_descriptions_def
      backend_developer_descriptions_def frontend_developer_descriptions_def
      devops_engineer_descriptions_def split: if_splits)

lemma get_mock_descriptions_nonempty: "\<exists>d ds. get_mock_descriptions t = Inr (d # ds)"
proof (cases "map_of MOCK_JOB_DESCRIPTIONS (py_lower (py_strip t))")
  case None
  then show ?thesis
    by (simp add: get_mock_descriptions_eq default_descriptions_def)
next
  case (Some ds)
  then have "ds \<noteq> []" by (rule mock_entries_nonempty)
  then obtain d ds' where "ds = d # ds'" by (cases ds) auto
  with Some show ?thesis by (simp add: get_mock_descriptions_eq)
qed

text \<open>What the loop returns, in terms of the raw descriptions of the jobs.\<close>

lemma clean_descriptions_iff:
  "clean_descriptions W jobs acc = Inr ds \<longleftrightarrow>
     (\<exists>raws cleaned.
        map (\<lambda>job. py_get job ''description'' (JStr [])) jobs = map Inr raws \<and>
        map (bs_get_text W) (filter truthy raws) = map Inr cleaned \<and>
        ds = acc @ cleaned)"
proof (induction jobs arbitrary: acc)
  case Nil
  show ?case by auto
next
  case (Cons job jobs)
  show ?case
  proof (cases "py_get job ''description'' (JStr [])")
    case (Inl e)
    then show ?thesis by (auto simp: Cons_eq_map_conv)
  next
    case (Inr raw)
    show ?thesis
    proof (cases "truthy raw")
      case False
      with Inr show ?thesis
        by (auto simp: Cons.IH Cons_eq_map_conv)
    next
      case True
      show ?thesis
      proof (cases "bs_get_text W raw")
        case (Inl e)
        with Inr True show ?thesis by (auto simp: Cons_eq_map_conv)
      next
        case clean: (Inr clean_text)
        with Inr True show ?thesis
          by (auto simp: Cons.IH Cons_eq_map_conv)
      qed
    qed
  qed
qed

lemma clean_descriptions_empty_iff:
  "clean_descriptions W jobs acc = Inr [] \<longleftrightarrow>
     acc = [] \<and> (\<forall>job \<in> set jobs. \<exists>raw. py_get job ''description'' (JStr []) = Inr raw \<and> \<not> truthy raw)"
  by (induction jobs arbitrary: acc) (auto split: sum.splits)

lemma iter_string_raises:
  "s \<noteq> [] \<Longrightarrow> \<exists>e. clean_descriptions W (map (\<lambda>c. JStr [c]) s) acc = Inl e"
  by (cases s) auto

lemma iter_dict_raises:
  "kvs \<noteq> [] \<Longrightarrow> \<exists>e. clean_descriptions W (map (\<lambda>kv. JStr (fst kv)) kvs) acc = Inl e"
  by (cases kvs) auto

lemma fetch_from_adzuna_truthy:
  assumes "adzuna_results W t i k n = Inr results" and "truthy results"
    and "fetch_from_adzuna W t i k n = Inr ds"
  shows "\<exists>jobs. results = JArr jobs \<and> jobs \<noteq> [] \<and> clean_descriptions W jobs [] = Inr ds"
proof (cases results)
  case (JStr s)
  with assms(2) have ne: "s \<noteq> []" by simp
  from iter_string_raises[OF ne, of W "[]"] ne assms(1,3) JStr show ?thesis
    by (auto simp: fetch_from_adzuna_def)
next
  case (JObj kvs)
  with assms(2) have ne: "kvs \<noteq> []" by simp
  from iter_dict_raises[OF ne, of W "[]"] ne assms(1,3) JObj show ?thesis
    by (auto simp: fetch_from_adzuna_def)
qed (use assms in \<open>auto simp: fetch_from_adzuna_def\<close>)

lemma fetch_from_adzuna_falsy:
  assumes "adzuna_results W t i k n = Inr results" and "\<not> truthy results"
  shows "fetch_from_adzuna W t i k n = get_mock_descriptions t"
  using assms by (simp add: fetch_from_adzuna_def)

lemma fetch_from_adzuna_empty_iff:
  "fetch_from_adzuna W t i k n = Inr [] \<longleftrightarrow>
     (\<exists>jobs. adzuna_results W t i k n = Inr (JArr jobs) \<and> jobs \<noteq> [] \<and>
        (\<forall>job \<in> set jobs. \<exists>raw. py_get job ''description'' (JStr []) = Inr raw \<and> \<not> truthy raw))"
  (is "?L \<longleftrightarrow> ?R")
proof
  assume L: ?L
  show ?R
  proof (cases "adzuna_results W t i k n")
    case (Inl e)
    with L show ?thesis by (simp add: fetch_from_adzuna_def)
  next
    case (Inr results)
    show ?thesis
    proof (cases "truthy results")
      case False
      with Inr L get_mock_descriptions_nonempty[of t] show ?thesis
        by (auto simp: fetch_from_adzuna_falsy)
    next
      case True
      from fetch_from_adzuna_truthy[OF Inr True L] Inr show ?thesis
        by (auto simp: clean_descriptions_empty_iff)
    qed
  qed
next
  assume ?R
  then show ?L
    by (auto simp: fetch_from_adzuna_def clean_descriptions_empty_iff)
qed

lemma fetch_job_descriptions_cases:
  "fetch_job_descriptions W t =
     (if credentials_missing W then get_mock_descriptions t
      else case fetch_from_adzuna W t (the (environ W ''ADZUNA_APP_ID''))
                  (the (environ W ''ADZUNA_APP_KEY'')) 10 of
             Inl e \<Rightarrow> get_mock_descriptions t
           | Inr ds \<Rightarrow> Inr ds)"
  by (auto simp: fetch_job_descriptions_def credentials_missing_def split: option.splits)

lemma fetch_job_descriptions_returns: "\<exists>ds. fetch_job_descriptions W t = Inr ds"
  using get_mock_descriptions_nonempty[of t]
  by (auto simp: fetch_job_descriptions_cases split: sum.splits)

lemma extract_keywords_returns: "\<exists>ys. fst (extract_keywords W self text n) = Inr ys"
  by (auto simp: extract_keywords_def split: option.splits prod.splits sum.splits)


lemma clean_descriptions_model:
  "clean_descriptions (W\<lparr>kw_extract_keywords := f\<rparr>) jobs acc = clean_descriptions W jobs acc"
  by (induction jobs arbitrary: acc) (auto split: sum.splits)

lemma fetch_from_adzuna_model:
  "fetch_from_adzuna (W\<lparr>kw_extract_keywords := f\<rparr>) t i k n = fetch_from_adzuna W t i k n"
  by (auto simp: fetch_from_adzuna_def adzuna_results_def clean_descriptions_model
      split: sum.splits)

lemma fetch_job_descriptions_model:
  "fetch_job_descriptions (W\<lparr>kw_extract_keywords := f\<rparr>) t = fetch_job_descriptions W t"
  by (auto simp: fetch_job_descriptions_def fetch_from_adzuna_model
      split: option.splits)

section \<open>The corpus provider\<close>

text \<open>
  C1 (as amended). For every job title \<^verbatim>\<open>_fetch_job_descriptions\<close> returns a list and
  does not raise, and the fallback table always supplies at least one description. The
  returned list is empty in exactly one situation: both credentials are set, the request
  succeeds with a list of results that is not empty, and every result is a dict whose
  \<^verbatim>\<open>description\<close> is missing or empty. In every other case (missing credentials, any
  exception of the primary path, no results, or a result with a description) the list
  is not empty.
\<close>

theorem fetch_job_descriptions_empty_iff:
  "(\<exists>ds. fetch_job_descriptions W job_title = Inr ds) \<and>
   (\<exists>d ds. get_mock_descriptions job_title = Inr (d # ds)) \<and>
   (fetch_job_descriptions W job_title = Inr [] \<longleftrightarrow>
      (\<exists>app_id app_key jobs.
         environ W ''ADZUNA_APP_ID'' = Some app_id \<and> app_id \<noteq> [] \<and>
         environ W ''ADZUNA_APP_KEY'' = Some app_key \<and> app_key \<noteq> [] \<and>
         adzuna_results W job_title app_id app_key 10 = Inr (JArr jobs) \<and> jobs \<noteq> [] \<and>
         (\<forall>job \<in> set jobs.
            \<exists>raw. py_get job ''description'' (JStr []) = Inr raw \<and> \<not> truthy raw)))"
proof (intro conjI)
  show "\<exists>ds. fetch_job_descriptions W job_title = Inr ds"
    by (rule fetch_job_descriptions_returns)
  show "\<exists>d ds. get_mock_descriptions job_title = Inr (d # ds)"
    by (rule get_mock_descriptions_nonempty)
  show "fetch_job_descriptions W job_title = Inr [] \<longleftrightarrow>
      (\<exists>app_id app_key jobs.
         environ W ''ADZUNA_APP_ID'' = Some app_id \<and> app_id \<noteq> [] \<and>
         environ W ''ADZUNA_APP_KEY'' = Some app_key \<and> app_key \<noteq> [] \<and>
         adzuna_results W job_title app_id app_key 10 = Inr (JArr jobs) \<and> jobs \<noteq> [] \<and>
         (\<forall>job \<in> set jobs.
            \<exists>raw. py_get job ''description'' (JStr []) = Inr raw \<and> \<not> truthy raw))"
  proof (cases "credentials_missing W")
    case True
    with get_mock_descriptions_nonempty[of job_title] show ?thesis
      by (auto simp: fetch_job_descriptions_cases credentials_missing_def)
  next
    case False
    then obtain i k where ik: "environ W ''ADZUNA_APP_ID'' = Some i" "i \<noteq> []"
        "environ W ''ADZUNA_APP_KEY'' = Some k" "k \<noteq> []"
      by (auto simp: credentials_missing_def split: option.splits)
    have "fetch_job_descriptions W job_title = Inr [] \<longleftrightarrow>
        fetch_from_adzuna W job_title i k 10 = Inr []"
      using False ik get_mock_descriptions_nonempty[of job_title]
      by (auto simp: fetch_job_descriptions_cases split: sum.splits)
    with ik show ?thesis
      by (simp add: fetch_from_adzuna_empty_iff)
  qed
qed

text \<open>
  The theorem at an environment with credentials whose one result has no description:
  the list is empty.
\<close>

theorem fetch_job_descriptions_empty_iff_witness:
  "fetch_job_descriptions no_description_world ''Flutter Developer'' = Inr [] \<and>
   adzuna_results no_description_world ''Flutter Developer'' ''id'' ''key'' 10 =
     Inr (JArr [JObj [(''title'', JStr ''Flutter Developer'')]])"
proof -
  have r: "adzuna_results no_description_world ''Flutter Developer'' ''id'' ''key'' 10 =
     Inr (JArr [JObj [(''title'', JStr ''Flutter Developer'')]])"
    by (simp add: adzuna_results_def no_description_world_def offline_world_def respond_def
        raise_for_status_def)
  have e: "environ no_description_world ''ADZUNA_APP_ID'' = Some ''id''"
    "environ no_description_world ''ADZUNA_APP_KEY'' = Some ''key''"
    by (simp_all add: no_description_world_def offline_world_def adzuna_environ_def)
  have "\<exists>app_id app_key jobs.
         environ no_description_world ''ADZUNA_APP_ID'' = Some app_id \<and> app_id \<noteq> [] \<and>
         environ no_description_world ''ADZUNA_APP_KEY'' = Some app_key \<and> app_key \<noteq> [] \<and>
         adzuna_results no_description_world ''Flutter Developer'' app_id app_key 10 =
           Inr (JArr jobs) \<and> jobs \<noteq> [] \<and>
         (\<forall>job \<in> set jobs.
            \<exists>raw. py_get job ''description'' (JStr []) = Inr raw \<and> \<not> truthy raw)"
    using r e by simp
  with fetch_job_descriptions_empty_iff[of no_description_world "''Flutter Developer''"] r
  show ?thesis by blast
qed

text \<open>
  C1 as stated fails: with credentials set and a result without description the
  primary path succeeds with the empty list.
\<close>

theorem fetch_job_descriptions_empty_counterexample:
  "environ no_description_world ''ADZUNA_APP_ID'' = Some ''id'' \<and>
   environ no_description_world ''ADZUNA_APP_KEY'' = Some ''key'' \<and>
   fetch_from_adzuna no_description_world ''flutter developer'' ''id'' ''key'' 10 = Inr [] \<and>
   fetch_job_descriptions no_description_world ''flutter developer'' = Inr []"
  by (simp add: fetch_job_descriptions_def fetch_from_adzuna_def adzuna_results_def
      no_description_world_def offline_world_def respond_def raise_for_status_def
      adzuna_environ_def)

section \<open>The pipeline\<close>

text \<open>
  C2. \<^verbatim>\<open>extract_skills\<close> is total: for every environment (whatever the request, the
  HTML stripping and the keyword extraction do, raising included), every state of the
  service (a loaded handle or \<^verbatim>\<open>None\<close>), every title and every \<open>top_n\<close> it returns a
  list of strings and raises nothing.
\<close>

theorem extract_skills_total:
  "\<exists>skills. fst (extract_skills W self job_title top_n) = Inr skills"
proof -
  obtain ds where "fetch_job_descriptions W job_title = Inr ds"
    using fetch_job_descriptions_returns by blast
  then show ?thesis
    using extract_keywords_returns[of W self "py_join '' '' ds" top_n]
    by (simp add: extract_skills_def)
qed

text \<open>
  C6. A failed load of the model leaves the handle \<^verbatim>\<open>None\<close>, and with the handle
  \<^verbatim>\<open>None\<close> the keyword extraction returns the empty list at once, so that
  \<^verbatim>\<open>extract_skills\<close> returns the empty list for every title and \<open>top_n\<close> and does not
  raise.
\<close>

theorem extract_skills_without_model:
  "(KeyBERT W ''all-MiniLM-L6-v2'' = Inl e \<longrightarrow>
      kw_model (SkillExtractorService_init W) = None) \<and>
   (kw_model self = None \<longrightarrow>
      extract_keywords W self text top_n = (Inr [], self) \<and>
      extract_skills W self job_title top_n = (Inr [], self))"
proof -
  obtain ds where "fetch_job_descriptions W job_title = Inr ds"
    using fetch_job_descriptions_returns by blast
  then show ?thesis
    by (simp add: SkillExtractorService_init_def extract_skills_def extract_keywords_def)
qed

theorem extract_skills_without_model_witness:
  "KeyBERT no_model_world ''all-MiniLM-L6-v2'' = Inl (LibraryError ''ImportError'') \<and>
   kw_model (SkillExtractorService_init no_model_world) = None \<and>
   extract_skills no_model_world (SkillExtractorService_init no_model_world)
     ''flutter developer'' 10 = (Inr [], SkillExtractorService_init no_model_world)"
proof -
  have k: "KeyBERT no_model_world ''all-MiniLM-L6-v2'' = Inl (LibraryError ''ImportError'')"
    by (simp add: no_model_world_def offline_world_def)
  from extract_skills_without_model[of no_model_world "LibraryError ''ImportError''"
      "SkillExtractorService_init no_model_world" "[]" 10 "''flutter developer''"] k
  show ?thesis by simp
qed

text \<open>
  C9. When the corpus fetch returns the empty list, \<^verbatim>\<open>extract_skills\<close> returns the
  empty list and leaves the service as it was, whatever the model's
  \<^verbatim>\<open>extract_keywords\<close> would do: the model is not called.
\<close>

theorem extract_skills_empty_corpus:
  assumes "fetch_job_descriptions W job_title = Inr []"
  shows "extract_skills (W\<lparr>kw_extract_keywords := f\<rparr>) self job_title top_n = (Inr [], self)"
proof -
  have "fetch_job_descriptions (W\<lparr>kw_extract_keywords := f\<rparr>) job_title =
      fetch_job_descriptions W job_title"
    by (rule fetch_job_descriptions_model)
  with assms show ?thesis by (simp add: extract_skills_def)
qed

theorem extract_skills_empty_corpus_witness:
  "fetch_job_descriptions no_description_world ''Data Scientist'' = Inr [] \<and>
   extract_skills (no_description_world\<lparr>kw_extract_keywords := raising_model\<rparr>)
     \<lparr>kw_model = Some 7\<rparr> ''Data Scientist'' 10 = (Inr [], \<lparr>kw_model = Some 7\<rparr>)"
proof -
  have f: "fetch_job_descriptions no_description_world ''Data Scientist'' = Inr []"
    by (simp add: fetch_job_descriptions_def fetch_from_adzuna_def adzuna_results_def
        no_description_world_def offline_world_def respond_def raise_for_status_def
        adzuna_environ_def)
  from extract_skills_empty_corpus[OF f, of raising_model "\<lparr>kw_model = Some 7\<rparr>" 10] f
  show ?thesis by simp
qed

text \<open>
  C5 (as amended). Whenever the primary source fails, that is the credentials are
  missing or empty, the request raises, the status is 4xx or 5xx, or there are no
  results, the corpus is the entry of the fallback table under the title stripped and
  lower-cased, and the \<^verbatim>\<open>default\<close> entry when the table has no such key; the
  \<^verbatim>\<open>default\<close> entry has 2 descriptions. (A status outside 2xx that is not 4xx or 5xx
  is no failure for \<^verbatim>\<open>raise_for_status\<close>.)
\<close>

theorem fallback_corpus_selection:
  assumes "primary_source_fails W job_title"
  shows "fetch_job_descriptions W job_title =
           Inr (case map_of MOCK_JOB_DESCRIPTIONS (py_lower (py_strip job_title)) of
                  None \<Rightarrow> default_descriptions
                | Some descriptions \<Rightarrow> descriptions) \<and>
         (py_lower (py_strip job_title) \<notin> set (map fst MOCK_JOB_DESCRIPTIONS) \<longrightarrow>
            fetch_job_descriptions W job_title = Inr default_descriptions) \<and>
         map_of MOCK_JOB_DESCRIPTIONS ''default'' = Some default_descriptions \<and>
         length default_descriptions = 2"
proof -
  have "fetch_job_descriptions W job_title = get_mock_descriptions job_title"
    using assms
    by (auto simp: primary_source_fails_def fetch_job_descriptions_def fetch_from_adzuna_def
        adzuna_results_def raise_for_status_def split: option.splits sum.splits if_splits)
  then have eq: "fetch_job_descriptions W job_title =
           Inr (case map_of MOCK_JOB_DESCRIPTIONS (py_lower (py_strip job_title)) of
                  None \<Rightarrow> default_descriptions
                | Some descriptions \<Rightarrow> descriptions)"
    by (simp add: get_mock_descriptions_eq)
  have "py_lower (py_strip job_title) \<notin> set (map fst MOCK_JOB_DESCRIPTIONS) \<longrightarrow>
       map_of MOCK_JOB_DESCRIPTIONS (py_lower (py_strip job_title)) = None"
    by (simp add: map_of_eq_None_iff)
  with eq show ?thesis
    by (auto simp: map_of_default default_descriptions_def)
qed

text \<open>The theorem at a status 500 and a title that the table does not have.\<close>

theorem fallback_corpus_selection_witness:
  "primary_source_fails status_500_world ''  Unknown Nonsense Title XYZ '' \<and>
   fetch_job_descriptions status_500_world ''  Unknown Nonsense Title XYZ '' =
     Inr default_descriptions"
proof -
  have f: "primary_source_fails status_500_world ''  Unknown Nonsense Title XYZ ''"
    by (simp add: primary_source_fails_def status_500_world_def offline_world_def
        adzuna_environ_def respond_def)
  have k: "py_lower (py_strip ''  Unknown Nonsense Title XYZ '') = ''unknown nonsense title xyz''"
    by code_simp
  have "py_lower (py_strip ''  Unknown Nonsense Title XYZ '') \<notin>
      set (map fst MOCK_JOB_DESCRIPTIONS)"
    unfolding k by (simp add: MOCK_JOB_DESCRIPTIONS_def)
  with fallback_corpus_selection[OF f] f show ?thesis by blast
qed

text \<open>
  C5 as stated fails: the status 300 is not 2xx, and the corpus is the one of the
  response, not the entry of the fallback table.
\<close>

theorem fallback_corpus_selection_counterexample:
  "requests_get status_300_world (adzuna_url ''flutter developer'' ''id'' ''key'' 10) 10 =
     Inr \<lparr>status_code = 300,
          json_result = Inr (JObj [(''results'', JArr [job_with ''Dart''])])\<rparr> \<and>
   \<not> (200 \<le> (300::int) \<and> (300::int) < 300) \<and>
   fetch_job_descriptions status_300_world ''flutter developer'' = Inr [''Dart''] \<and>
   get_mock_descriptions ''flutter developer'' = Inr flutter_developer_descriptions \<and>
   flutter_developer_descriptions \<noteq> [''Dart'']"
proof -
  have a: "requests_get status_300_world (adzuna_url ''flutter developer'' ''id'' ''key'' 10) 10 =
     Inr \<lparr>status_code = 300,
          json_result = Inr (JObj [(''results'', JArr [job_with ''Dart''])])\<rparr>"
    by (simp add: status_300_world_def offline_world_def respond_def)
  have b: "fetch_job_descriptions status_300_world ''flutter developer'' = Inr [''Dart'']"
    by (simp add: fetch_job_descriptions_def fetch_from_adzuna_def adzuna_results_def
        status_300_world_def offline_world_def respond_def raise_for_status_def
        adzuna_environ_def job_with_def plain_get_text_def)
  have k: "py_lower (py_strip ''flutter developer'') = ''flutter developer''"
    by code_simp
  have c: "get_mock_descriptions ''flutter developer'' = Inr flutter_developer_descriptions"
    unfolding get_mock_descriptions_eq k by (simp add: MOCK_JOB_DESCRIPTIONS_def)
  have d: "flutter_developer_descriptions \<noteq> [''Dart'']"
    by (simp add: flutter_developer_descriptions_def)
  from a b c d show ?thesis by simp
qed

text \<open>
  C10 (as amended). When \<^verbatim>\<open>_fetch_from_adzuna\<close> returns from a results value that is
  not empty, the results are a list of dicts, and the corpus is exactly the stripped
  texts of the descriptions that are not empty, in the order of the results. It has at
  most as many entries as the response has results: at most \<^verbatim>\<open>results_per_page\<close> when
  the response has no more results than that; the function itself does not cut the list.
\<close>

theorem fetch_from_adzuna_corpus:
  assumes "adzuna_results W job_title app_id app_key results_per_page = Inr results"
    and "truthy results"
    and "fetch_from_adzuna W job_title app_id app_key results_per_page = Inr descriptions"
  shows "\<exists>jobs raws.
           results = JArr jobs \<and>
           map (\<lambda>job. py_get job ''description'' (JStr [])) jobs = map Inr raws \<and>
           map (bs_get_text W) (filter truthy raws) = map Inr descriptions \<and>
           length descriptions \<le> length jobs \<and>
           (int (length jobs) \<le> results_per_page \<longrightarrow>
              int (length descriptions) \<le> results_per_page)"
proof -
  from fetch_from_adzuna_truthy[OF assms] obtain jobs where
    jobs: "results = JArr jobs" "clean_descriptions W jobs [] = Inr descriptions"
    by blast
  from jobs(2) obtain raws where
    raws: "map (\<lambda>job. py_get job ''description'' (JStr [])) jobs = map Inr raws"
      "map (bs_get_text W) (filter truthy raws) = map Inr descriptions"
    by (auto simp: clean_descriptions_iff)
  from raws(1) have "length jobs = length raws"
    by (rule map_eq_imp_length_eq)
  moreover from raws(2) have "length (filter truthy raws) = length descriptions"
    by (rule map_eq_imp_length_eq)
  moreover have "length (filter truthy raws) \<le> length raws"
    by (rule length_filter_le)
  ultimately have "length descriptions \<le> length jobs" by simp
  with jobs(1) raws show ?thesis by auto
qed

text \<open>
  The theorem at a response of three results, the second with an empty description.
\<close>

theorem fetch_from_adzuna_corpus_witness:
  "adzuna_results live_world ''flutter developer'' ''id'' ''key'' 10 =
     Inr (JArr [job_with ''Dart'', job_with [], job_with ''Bloc'']) \<and>
   truthy (JArr [job_with ''Dart'', job_with [], job_with ''Bloc'']) \<and>
   fetch_from_adzuna live_world ''flutter developer'' ''id'' ''key'' 10 =
     Inr [''Dart'', ''Bloc''] \<and>
   (\<exists>raws.
      map (\<lambda>job. py_get job ''description'' (JStr []))
        [job_with ''Dart'', job_with [], job_with ''Bloc''] = map Inr raws \<and>
      map (bs_get_text live_world) (filter truthy raws) = map Inr [''Dart'', ''Bloc''])"
proof -
  have a: "adzuna_results live_world ''flutter developer'' ''id'' ''key'' 10 =
     Inr (JArr [job_with ''Dart'', job_with [], job_with ''Bloc''])"
    by (simp add: adzuna_results_def live_world_def offline_world_def respond_def
        raise_for_status_def)
  have b: "truthy (JArr [job_with ''Dart'', job_with [], job_with ''Bloc''])"
    by simp
  have t: "bs_get_text live_world = plain_get_text"
    by (simp add: live_world_def offline_world_def)
  have c: "fetch_from_adzuna live_world ''flutter developer'' ''id'' ''key'' 10 =
     Inr [''Dart'', ''Bloc'']"
    by (simp add: fetch_from_adzuna_def a job_with_def t plain_get_text_def)
  from fetch_from_adzuna_corpus[OF a b c] a b c show ?thesis by auto
qed

text \<open>
  C10 as stated fails: a response of eleven results gives eleven descriptions for
  \<^verbatim>\<open>results_per_page = 10\<close>.
\<close>

theorem fetch_from_adzuna_corpus_counterexample:
  "adzuna_results eleven_world ''flutter developer'' ''id'' ''key'' 10 = Inr (JArr eleven_jobs) \<and>
   fetch_from_adzuna eleven_world ''flutter developer'' ''id'' ''key'' 10 =
     Inr [''a'', ''b'', ''c'', ''d'', ''e'', ''f'', ''g'', ''h'', ''i'', ''j'', ''k''] \<and>
   \<not> length [''a'', ''b'', ''c'', ''d'', ''e'', ''f'', ''g'', ''h'', ''i'', ''j'', ''k''] \<le> (10::nat)"
proof -
  have a: "adzuna_results eleven_world ''flutter developer'' ''id'' ''key'' 10 =
      Inr (JArr eleven_jobs)"
    by (simp add: adzuna_results_def eleven_world_def offline_world_def respond_def
        raise_for_status_def)
  have t: "bs_get_text eleven_world = plain_get_text"
    by (simp add: eleven_world_def offline_world_def)
  have b: "fetch_from_adzuna eleven_world ''flutter developer'' ''id'' ''key'' 10 =
     Inr [''a'', ''b'', ''c'', ''d'', ''e'', ''f'', ''g'', ''h'', ''i'', ''j'', ''k'']"
    by (simp add: fetch_from_adzuna_def a eleven_jobs_def job_with_def t plain_get_text_def)
  from a b show ?thesis by simp
qed

section \<open>Keyword extraction\<close>

text \<open>What the keyword extraction returns, read off the handle.\<close>

lemma extract_keywords_eq:
  "fst (extract_keywords W self text top_n) =
     Inr (case kw_model self of
            None \<Rightarrow> []
          | Some m \<Rightarrow>
              (case fst (kw_extract_keywords W m (keyword_args text top_n)) of
                 Inl e \<Rightarrow> []
               | Inr keywords_with_scores \<Rightarrow> map fst keywords_with_scores))"
  by (auto simp: extract_keywords_def split: option.splits prod.splits sum.splits)




subsection \<open>The Diversity Selector\<close>









text \<open>With \<open>top_n\<close> at most 1 the selector returns its first pick.\<close>

lemma select_first:
  assumes "top_n \<le> 1"
  shows "select relevance similarity diversity top_n scored =
           [best (\<lambda>a b. relevance a > relevance b) (hd scored) (tl scored)]"
  unfolding select_def Let_def by (subst select_loop.simps) (use assms in simp)

subsection \<open>The extractor and the pipeline\<close>



























subsection \<open>What the selection depends on\<close>








end
